theory Spec2Isabelle
  imports Complex_Main
begin

section \<open>Fitness Fusion: data model (types.ts)\<close>

text \<open>
  The value of a JavaScript \<^verbatim>\<open>number\<close> is a \<^typ>\<open>real\<close>. The operations behind the BMI
  and behind the lifted volume of a session round every result to double precision, as
  the source does (\<open>binary64\<close> below); the calorie target and the session statistics are
  read in exact arithmetic. Counters that the code only ever increments from zero
  (\<^verbatim>\<open>elapsedSeconds\<close>) are naturals, instants of time are integers (milliseconds since
  the epoch, UTC).

  Isabelle record fields share one name space, so every field carries a short prefix of
  its interface: \<^verbatim>\<open>UserProfile.weight\<close> is \<open>u_weight\<close>, \<^verbatim>\<open>Exercise.weight\<close> is
  \<open>ex_weight\<close>, \<^verbatim>\<open>WorkoutSession.id\<close> is \<open>ws_id\<close>, and so on.
\<close>

type_synonym number = real

datatype ActivityLevel = SEDENTARY | LIGHT | MODERATE | VERY

datatype Gender = Male | Female | Other

record WeightEntry =
  we_date :: string
  we_weight :: number

record UserProfile =
  u_name :: string
  u_gender :: Gender
  u_age :: number
  u_weight :: number
  u_height :: number
  u_goal :: string
  u_activityLevel :: ActivityLevel
  u_weightHistory :: "WeightEntry list"

record Exercise =
  ex_id :: string
  ex_name :: string
  ex_sets :: number
  ex_reps :: number
  ex_weight :: number
  ex_completed :: bool

text \<open>
  \<^verbatim>\<open>WorkoutSession.date\<close> is an ISO-8601 string in the source, always produced by
  \<^verbatim>\<open>new Date().toISOString()\<close> (Workout.tsx, finishSession). The model keeps the instant
  the string denotes, in milliseconds since the epoch; the text before the letter T of
  that string is the UTC calendar day of the instant (see \<open>isoDate\<close> below).
  Optional fields (\<^verbatim>\<open>goal?\<close>, \<^verbatim>\<open>goalAchieved?\<close>, \<^verbatim>\<open>imageUrl?\<close>) are options.
\<close>

record WorkoutSession =
  ws_id :: string
  ws_date :: int
  ws_name :: string
  ws_exercises :: "Exercise list"
  ws_durationMinutes :: number
  ws_caloriesBurned :: number
  ws_goal :: "string option"
  ws_goalAchieved :: "bool option"

datatype Role = role_user | role_model

record ChatMessage =
  cm_id :: string
  cm_role :: Role
  cm_text :: string
  cm_timestamp :: int

datatype ViewState = dashboard | workout | nutrition | coach | profile

section \<open>JavaScript values, exceptions and the generation service\<close>

text \<open>
  What \<^verbatim>\<open>JSON.parse\<close> returns, plus \<^verbatim>\<open>undefined\<close>, which reading an absent property
  yields. An object is the list of its own properties with their values; a parsed document
  has no repeated key.
\<close>

datatype jsv =
    JUndefined
  | JNull
  | JBool bool
  | JNum number
  | JStr string
  | JArr "jsv list"
  | JObj "(string \<times> jsv) list"

text \<open>
  Exceptions as values. \<open>Error m\<close> is \<^verbatim>\<open>new Error(m)\<close>, \<open>TypeError\<close> is what reading a
  property of \<^verbatim>\<open>undefined\<close> or \<^verbatim>\<open>null\<close> throws, \<open>SyntaxError\<close> is what \<^verbatim>\<open>JSON.parse\<close>
  throws, and \<open>ApiError m\<close> is a rejection of the call to the hosted service (network,
  quota, refusal).
\<close>

datatype exn = Error string | TypeError | SyntaxError | ApiError string

text \<open>
  One call to the generation service either throws or resolves to a response whose
  \<^verbatim>\<open>text\<close> accessor is a string or \<^verbatim>\<open>undefined\<close>.
\<close>

datatype reply = Throws exn | Responds "string option"

text \<open>Property read \<^verbatim>\<open>data.k\<close>: throws on \<^verbatim>\<open>null\<close> and \<^verbatim>\<open>undefined\<close>, yields
  \<^verbatim>\<open>undefined\<close> for a key the object does not have. None of the keys read by this
  program is a property of a number, boolean, string or array.\<close>

fun getProp :: "jsv \<Rightarrow> string \<Rightarrow> exn + jsv" where
  "getProp JUndefined k = Inl TypeError"
| "getProp JNull k = Inl TypeError"
| "getProp (JObj kvs) k = (case map_of kvs k of None \<Rightarrow> Inr JUndefined | Some v \<Rightarrow> Inr v)"
| "getProp v k = Inr JUndefined"

text \<open>JavaScript truthiness of an optional string: \<^verbatim>\<open>undefined\<close>, \<^verbatim>\<open>null\<close> and the
  empty string are falsy.\<close>

definition truthy :: "string option \<Rightarrow> bool" where
  "truthy t = (case t of None \<Rightarrow> False | Some s \<Rightarrow> s \<noteq> [])"

section \<open>Session store (App component)\<close>

text \<open>The state hooks of App; the fields carry the prefix \<open>app_\<close> because the components
  name their props \<^verbatim>\<open>workouts\<close>, \<^verbatim>\<open>meals\<close> and \<^verbatim>\<open>userProfile\<close> too.\<close>

text \<open>
  types.ts declares the four macro fields as \<^verbatim>\<open>number\<close> and the meal name as
  \<^verbatim>\<open>string\<close>. At run time they hold whatever the parsed reply of the service held
  under these keys (analyzeFoodImage copies the properties unchecked), so the model gives
  them the type of JavaScript values.
\<close>

record MacroNutrients =
  calories :: jsv
  protein :: jsv
  carbs :: jsv
  fat :: jsv

record MealLog =
  ml_id :: string
  ml_name :: jsv
  ml_timestamp :: int
  ml_macros :: MacroNutrients
  ml_imageUrl :: "string option"

record App =
  app_currentView :: ViewState
  app_workouts :: "WorkoutSession list"
  app_meals :: "MealLog list"
  app_userProfile :: "UserProfile option"

definition handleAddWorkout :: "WorkoutSession \<Rightarrow> App \<Rightarrow> App" where
  "handleAddWorkout w app = app\<lparr>app_workouts := w # app_workouts app, app_currentView := dashboard\<rparr>"

definition handleUpdateWorkout :: "WorkoutSession \<Rightarrow> App \<Rightarrow> App" where
  "handleUpdateWorkout updatedWorkout app =
     app\<lparr>app_workouts :=
           map (\<lambda>w. if ws_id w = ws_id updatedWorkout then updatedWorkout else w)
               (app_workouts app)\<rparr>"

definition handleAddMeal :: "MealLog \<Rightarrow> App \<Rightarrow> App" where
  "handleAddMeal meal app = app\<lparr>app_meals := meal # app_meals app\<rparr>"

section \<open>Exceptions: sequencing and try/catch\<close>

text \<open>A computation that may throw is a value of \<open>exn + 'a\<close>; \<open>catch\<close> is a
  \<^verbatim>\<open>try { ... } catch (error) { ... }\<close> block.\<close>

definition catch :: "exn + 'a \<Rightarrow> (exn \<Rightarrow> exn + 'a) \<Rightarrow> exn + 'a" where
  "catch body handler = (case body of Inl e \<Rightarrow> handler e | Inr v \<Rightarrow> Inr v)"

definition andThen :: "exn + 'a \<Rightarrow> ('a \<Rightarrow> exn + 'b) \<Rightarrow> exn + 'b" where
  "andThen m f = (case m of Inl e \<Rightarrow> Inl e | Inr v \<Rightarrow> f v)"

section \<open>AI orchestration (services/geminiService.ts)\<close>

text \<open>
  The built-in \<^verbatim>\<open>JSON.parse\<close> is a parameter of the operations that call it: a function
  from the response text to the parsed document, or to the exception it throws. The
  outcome of the request to the hosted service is a parameter as well (\<open>reply\<close>); the
  request itself (prompt, schema, image bytes) has no effect on what the functions do with
  the outcome.
\<close>

type_synonym json_parser = "string \<Rightarrow> exn + jsv"

record Analysis =
  an_name :: jsv
  an_macros :: MacroNutrients
  an_description :: jsv

text \<open>Lines 45-58 of the source: the body of the try block after the awaited call.\<close>

definition analyzeFoodImage_body :: "json_parser \<Rightarrow> reply \<Rightarrow> exn + Analysis" where
  "analyzeFoodImage_body JSON_parse response =
     (case response of
        Throws e \<Rightarrow> Inl e
      | Responds text \<Rightarrow>
          if \<not> truthy text then Inl (Error ''No response from AI'')
          else
            andThen (JSON_parse (case text of Some t \<Rightarrow> t | None \<Rightarrow> [])) (\<lambda>data.
            andThen (getProp data ''name'') (\<lambda>n.
            andThen (getProp data ''calories'') (\<lambda>cal.
            andThen (getProp data ''protein'') (\<lambda>pro.
            andThen (getProp data ''carbs'') (\<lambda>car.
            andThen (getProp data ''fat'') (\<lambda>f.
            andThen (getProp data ''description'') (\<lambda>d.
              Inr \<lparr>an_name = n,
                   an_macros = \<lparr>calories = cal, protein = pro, carbs = car, fat = f\<rparr>,
                   an_description = d\<rparr>))))))))"

text \<open>The catch block logs the error and throws it again.\<close>

definition analyzeFoodImage :: "json_parser \<Rightarrow> reply \<Rightarrow> exn + Analysis" where
  "analyzeFoodImage JSON_parse response =
     catch (analyzeFoodImage_body JSON_parse response) (\<lambda>error. Inl error)"

definition coachingFallback :: string where
  "coachingFallback =
     ''I'm having trouble connecting to the fitness server. Let's focus on your breathing for a moment.''"

text \<open>\<^verbatim>\<open>history[history.length - 1]\<close>: \<^verbatim>\<open>undefined\<close> for the empty array.\<close>

fun lastEntry :: "'a list \<Rightarrow> 'a option" where
  "lastEntry [] = None"
| "lastEntry [x] = Some x"
| "lastEntry (x # y # ys) = lastEntry (y # ys)"

text \<open>
  \<open>create\<close> is what \<^verbatim>\<open>ai.chats.create\<close> does (\<open>Some e\<close>: it throws \<open>e\<close>); \<open>sendMessage\<close>
  is the outcome of sending a message text to the chat. Reading \<^verbatim>\<open>.role\<close> of the
  \<^verbatim>\<open>undefined\<close> last entry throws a TypeError inside the try block.
\<close>

definition getFitnessCoaching_body ::
  "exn option \<Rightarrow> (string \<Rightarrow> reply) \<Rightarrow> ChatMessage list \<Rightarrow> exn + string" where
  "getFitnessCoaching_body create sendMessage history =
     (case create of
        Some e \<Rightarrow> Inl e
      | None \<Rightarrow>
          (case lastEntry history of
             None \<Rightarrow> Inl TypeError
           | Some lastUserMessage \<Rightarrow>
               if cm_role lastUserMessage \<noteq> role_user then Inr []
               else
                 (case sendMessage (cm_text lastUserMessage) of
                    Throws e \<Rightarrow> Inl e
                  | Responds text \<Rightarrow>
                      Inr (case text of
                             Some t \<Rightarrow> if t \<noteq> [] then t
                                       else ''Keep pushing! I'm analyzing your request.''
                           | None \<Rightarrow> ''Keep pushing! I'm analyzing your request.''))))"

definition getFitnessCoaching ::
  "exn option \<Rightarrow> (string \<Rightarrow> reply) \<Rightarrow> ChatMessage list \<Rightarrow> exn + string" where
  "getFitnessCoaching create sendMessage history =
     catch (getFitnessCoaching_body create sendMessage history)
           (\<lambda>error. Inr coachingFallback)"

text \<open>The plan is the parsed document itself (\<^verbatim>\<open>JSON.parse(text) as AIWorkoutPlan\<close> is an
  unchecked cast), so a plan is a \<open>jsv\<close>; the fallback is the object literal of the
  catch block.\<close>

definition fallbackExercise :: "string \<Rightarrow> number \<Rightarrow> number \<Rightarrow> number \<Rightarrow> jsv" where
  "fallbackExercise n s r w =
     JObj [(''name'', JStr n), (''sets'', JNum s), (''reps'', JNum r),
           (''weightSuggestion'', JNum w)]"

definition fallbackPlan :: jsv where
  "fallbackPlan =
     JObj [(''workoutName'', JStr ''Quick HIIT Blast''),
           (''strategy'', JStr ''Fallback routine to keep you moving.''),
           (''exercises'',
              JArr [fallbackExercise ''Jumping Jacks'' 3 30 0,
                    fallbackExercise ''Pushups'' 3 10 0,
                    fallbackExercise ''Squats'' 3 15 0])]"

definition generateWorkoutPlan_body :: "json_parser \<Rightarrow> reply \<Rightarrow> exn + jsv" where
  "generateWorkoutPlan_body JSON_parse response =
     (case response of
        Throws e \<Rightarrow> Inl e
      | Responds text \<Rightarrow>
          if \<not> truthy text then Inl (Error ''No plan generated'')
          else JSON_parse (case text of Some t \<Rightarrow> t | None \<Rightarrow> []))"

definition generateWorkoutPlan :: "json_parser \<Rightarrow> reply \<Rightarrow> exn + jsv" where
  "generateWorkoutPlan JSON_parse response =
     catch (generateWorkoutPlan_body JSON_parse response) (\<lambda>error. Inr fallbackPlan)"

text \<open>Reading the plan back, as handleGenerateWorkout does (\<^verbatim>\<open>plan.exercises\<close>,
  \<^verbatim>\<open>ex.name\<close>, \<^verbatim>\<open>ex.weightSuggestion\<close>).\<close>

definition planExercises :: "jsv \<Rightarrow> jsv list" where
  "planExercises plan = (case getProp plan ''exercises'' of Inr (JArr xs) \<Rightarrow> xs | _ \<Rightarrow> [])"

definition propOf :: "string \<Rightarrow> jsv \<Rightarrow> jsv" where
  "propOf k v = (case getProp v k of Inr x \<Rightarrow> x | Inl e \<Rightarrow> JUndefined)"

section \<open>The clock and decimal numerals\<close>

text \<open>\<^verbatim>\<open>Date.now().toString()\<close>: the decimal numeral of an integer.\<close>

fun natDigits :: "nat \<Rightarrow> string" where
  "natDigits n =
     (if n < 10 then [char_of (48 + n)] else natDigits (n div 10) @ [char_of (48 + n mod 10)])"

declare natDigits.simps [simp del]

definition Number_toString :: "int \<Rightarrow> string" where
  "Number_toString i = (if i < 0 then CHR ''-'' # natDigits (nat (- i)) else natDigits (nat i))"

section \<open>Nutrition component\<close>

text \<open>
  The component's state hooks, and \<open>alerts\<close>, the messages shown with \<^verbatim>\<open>alert\<close>. A handler
  runs on the pair of the App state (which owns the meal log) and the component state, and
  yields the new pair, or the exception that leaves it uncaught.
\<close>

record Nutrition =
  isAnalyzing :: bool
  preview :: "string option"
  analysisResult :: "Analysis option"
  alerts :: "string list"

text \<open>
  \<open>file\<close> is \<^verbatim>\<open>e.target.files?.[0]\<close> (its MIME type when a file was chosen), \<open>readerResult\<close>
  is \<^verbatim>\<open>reader.result\<close> when the read has ended (\<^verbatim>\<open>null\<close> when reading failed, and
  then \<^verbatim>\<open>base64String.split\<close> throws a TypeError inside the try block), \<open>response\<close> is the
  outcome of the request that analyzeFoodImage sends.
\<close>

definition handleFileSelect ::
  "json_parser \<Rightarrow> string option \<Rightarrow> string option \<Rightarrow> reply \<Rightarrow> App \<times> Nutrition
     \<Rightarrow> exn + App \<times> Nutrition" where
  "handleFileSelect JSON_parse file readerResult response st =
     (case st of (app, n) \<Rightarrow>
        (case file of
           None \<Rightarrow> Inr (app, n)
         | Some mimeType \<Rightarrow>
             let n1 = n\<lparr>preview := readerResult, analysisResult := None, isAnalyzing := True\<rparr>;
                 attempt =
                   catch
                     (andThen
                        (case readerResult of
                           None \<Rightarrow> Inl TypeError
                         | Some base64String \<Rightarrow> analyzeFoodImage JSON_parse response)
                        (\<lambda>result. Inr (n1\<lparr>analysisResult := Some result\<rparr>)))
                     (\<lambda>error.
                        Inr (n1\<lparr>alerts := alerts n1 @ [''Failed to analyze image. Please try again.'']\<rparr>))
             in andThen attempt (\<lambda>n2. Inr (app, n2\<lparr>isAnalyzing := False\<rparr>))))"

text \<open>Both reads of the clock in one run of the handler yield the same instant \<open>now\<close>.\<close>

definition handleSaveMeal :: "int \<Rightarrow> App \<times> Nutrition \<Rightarrow> exn + App \<times> Nutrition" where
  "handleSaveMeal now st =
     (case st of (app, n) \<Rightarrow>
        (case analysisResult n of
           Some result \<Rightarrow>
             if truthy (preview n) then
               let newMeal =
                     \<lparr>ml_id = Number_toString now,
                      ml_name = an_name result,
                      ml_timestamp = now,
                      ml_macros = an_macros result,
                      ml_imageUrl = preview n\<rparr>
               in Inr (handleAddMeal newMeal app, n\<lparr>preview := None, analysisResult := None\<rparr>)
             else Inr (app, n)
         | None \<Rightarrow> Inr (app, n)))"

section \<open>Workout component\<close>

record Workout =
  isLogging :: bool
  currentSessionName :: string
  currentGoal :: string
  goalAchieved :: bool
  currentExercises :: "Exercise list"
  isGenerating :: bool
  aiStrategy :: "string option"
  elapsedSeconds :: nat
  isTimerRunning :: bool

definition Math_ceil :: "real \<Rightarrow> int" where
  "Math_ceil x = \<lceil>x\<rceil>"

definition Math_floor :: "real \<Rightarrow> int" where
  "Math_floor x = \<lfloor>x\<rfloor>"

text \<open>\<^verbatim>\<open>Math.round\<close> rounds to the nearest integer, a half towards plus infinity.\<close>

definition Math_round :: "real \<Rightarrow> int" where
  "Math_round x = \<lfloor>x + 1 / 2\<rfloor>"

definition sessionDuration :: "nat \<Rightarrow> int" where
  "sessionDuration secs = max 1 (Math_ceil (real secs / 60))"

definition sessionCalories :: "int \<Rightarrow> nat \<Rightarrow> int" where
  "sessionCalories durationMinutes exerciseCount =
     Math_floor (real_of_int durationMinutes * 5 + real exerciseCount * 20)"

text \<open>finishSession calls \<^verbatim>\<open>onAddWorkout\<close>, which App binds to handleAddWorkout.\<close>

definition finishSession :: "int \<Rightarrow> App \<times> Workout \<Rightarrow> App \<times> Workout" where
  "finishSession now st =
     (case st of (app, w) \<Rightarrow>
        if currentSessionName w = [] \<or> length (currentExercises w) = 0 then (app, w)
        else
          let durationMinutes = sessionDuration (elapsedSeconds w);
              calculatedCalories = sessionCalories durationMinutes (length (currentExercises w));
              newSession =
                \<lparr>ws_id = Number_toString now,
                 ws_date = now,
                 ws_name = currentSessionName w,
                 ws_exercises = currentExercises w,
                 ws_durationMinutes = real_of_int durationMinutes,
                 ws_caloriesBurned = real_of_int calculatedCalories,
                 ws_goal = Some (currentGoal w),
                 ws_goalAchieved = Some (goalAchieved w)\<rparr>
          in (handleAddWorkout newSession app,
              w\<lparr>isLogging := False, isTimerRunning := False, currentSessionName := [],
                currentGoal := [], goalAchieved := False, currentExercises := [],
                aiStrategy := None\<rparr>))"

section \<open>Dashboard component: calorie target\<close>

record Targets =
  calorieGoal :: int
  stepGoal :: int

fun multipliers :: "ActivityLevel \<Rightarrow> number" where
  "multipliers SEDENTARY = 1.2"
| "multipliers LIGHT = 1.375"
| "multipliers MODERATE = 1.55"
| "multipliers VERY = 1.725"

definition calculateTargets :: "UserProfile \<Rightarrow> Targets" where
  "calculateTargets userProfile =
     (let bmr0 = (10 * u_weight userProfile) + (6.25 * u_height userProfile)
                   - (5 * u_age userProfile);
          bmr = bmr0 + (if u_gender userProfile = Male then 5 else - 161);
          tdee = bmr * multipliers (u_activityLevel userProfile);
          goal0 = tdee;
          goal1 = (if u_goal userProfile = ''Lose Weight'' then goal0 - 500 else goal0);
          dailyCalorieGoal = (if u_goal userProfile = ''Build Muscle'' then goal1 + 300 else goal1)
      in \<lparr>calorieGoal = Math_round dailyCalorieGoal, stepGoal = 10000\<rparr>)"

section \<open>Double-precision arithmetic\<close>








section \<open>Profile component: dates\<close>

text \<open>
  The JavaScript \<^verbatim>\<open>Date\<close> operations that calculateStreak uses, on instants in
  milliseconds since the epoch.

  \<^item> \<open>isoDate t\<close> is \<^verbatim>\<open>new Date(t).toISOString().split('T')[0]\<close>: the UTC calendar day
    of \<open>t\<close>, kept as its day number (days since 1970-01-01).
  \<^item> \<open>parseDate d\<close> is \<^verbatim>\<open>new Date(s)\<close> for the date-only string \<open>s\<close> of day \<open>d\<close>:
    midnight UTC of that day.
  \<^item> A \<open>zone\<close> is the time zone of the host: \<open>offsetAtUTC\<close> gives the local offset in
    force at a UTC instant, \<open>offsetAtLocal\<close> the offset by which a local wall-clock time
    is read back (ECMAScript's LocalTime and UTC abstract operations).
  \<^item> \<open>setDateBack z t i\<close> is the instant of a Date holding \<open>t\<close> after
    \<^verbatim>\<open>d.setDate(d.getDate() - i)\<close>: getDate and setDate work on the local
    wall-clock time, setDate keeps the time of day and moves the calendar day, so the
    local time goes back by \<open>i\<close> whole days and is then read back as an instant.
\<close>

definition msPerDay :: int where
  "msPerDay = 86400000"

definition isoDate :: "int \<Rightarrow> int" where
  "isoDate t = t div msPerDay"

definition parseDate :: "int \<Rightarrow> int" where
  "parseDate d = d * msPerDay"

record zone =
  offsetAtUTC :: "int \<Rightarrow> int"
  offsetAtLocal :: "int \<Rightarrow> int"

definition LocalTime :: "zone \<Rightarrow> int \<Rightarrow> int" where
  "LocalTime z t = t + offsetAtUTC z t"

definition UTC :: "zone \<Rightarrow> int \<Rightarrow> int" where
  "UTC z lt = lt - offsetAtLocal z lt"

definition setDateBack :: "zone \<Rightarrow> int \<Rightarrow> int \<Rightarrow> int" where
  "setDateBack z t i = UTC z (LocalTime z t - i * msPerDay)"

text \<open>A zone whose offset never changes, and Central European Time as it was in 2024:
  UTC+1, and UTC+2 from 2024-03-31T01:00Z (1711846800000) until 2024-10-27T01:00Z
  (1729990800000), that is from 03:00 local on March 31 (1711854000000 on the local
  scale) until 03:00 local on October 27 (1729998000000).\<close>

definition fixedZone :: "int \<Rightarrow> zone" where
  "fixedZone off = \<lparr>offsetAtUTC = (\<lambda>t. off), offsetAtLocal = (\<lambda>t. off)\<rparr>"

definition europeBerlin2024 :: zone where
  "europeBerlin2024 =
     \<lparr>offsetAtUTC = (\<lambda>t. if 1711846800000 \<le> t \<and> t < 1729990800000 then 7200000 else 3600000),
      offsetAtLocal = (\<lambda>lt. if 1711854000000 \<le> lt \<and> lt < 1729998000000 then 7200000 else 3600000)\<rparr>"

section \<open>Profile component: streak, badges, BMI\<close>

text \<open>\<^verbatim>\<open>[...new Set(xs)]\<close> keeps the first occurrence of every element, in order.\<close>

definition uniqueInOrder :: "'a list \<Rightarrow> 'a list" where
  "uniqueInOrder xs = rev (remdups (rev xs))"

text \<open>The sort with comparator \<^verbatim>\<open>new Date(b).getTime() - new Date(a).getTime()\<close>: stable,
  latest date first.\<close>

definition sortDescending :: "int list \<Rightarrow> int list" where
  "sortDescending ds = sort_key (\<lambda>d. - parseDate d) ds"

text \<open>The counting loop: \<open>i\<close> is the loop index, \<open>streak\<close> the counter.\<close>

function streakLoop :: "zone \<Rightarrow> int list \<Rightarrow> nat \<Rightarrow> nat \<Rightarrow> nat" where
  "streakLoop z dates i streak =
     (if i < length dates then
        (if isoDate (parseDate (dates ! i))
              = isoDate (setDateBack z (parseDate (dates ! 0)) (int i))
         then streakLoop z dates (i + 1) (streak + 1)
         else streak)
      else streak)"
  by pat_completeness auto
termination
  by (relation "measure (\<lambda>(z, dates, i, streak). length dates - i)") auto

declare streakLoop.simps [simp del]

text \<open>\<open>z\<close> is the host's time zone and \<open>now\<close> the instant of the call (\<^verbatim>\<open>Date.now()\<close>).\<close>

definition calculateStreak :: "zone \<Rightarrow> int \<Rightarrow> WorkoutSession list \<Rightarrow> nat" where
  "calculateStreak z now workouts =
     (if length workouts = 0 then 0
      else
        let dates = sortDescending (uniqueInOrder (map (\<lambda>w. isoDate (ws_date w)) workouts))
        in if length dates = 0 then 0
           else
             let today = isoDate now;
                 yesterday = isoDate (now - 86400000)
             in if dates ! 0 \<noteq> today \<and> dates ! 0 \<noteq> yesterday then 0
                else streakLoop z dates 0 0)"










text \<open>
  BMI. A division by zero does not throw in JavaScript, so the quotient is an extended
  number. The divisor is a square, hence a zero divisor is +0 and the sign of the
  infinity is the sign of the weight. The division by 100, the square and the quotient
  are each rounded to double precision.

  \<open>toFixed1\<close> is \<^verbatim>\<open>parseFloat(x.toFixed(1))\<close>: toFixed works on the exact value of the
  double it is given; for a magnitude below \<open>10^21\<close> it prints the nearest multiple of
  one tenth, the larger magnitude on a tie, with the sign put back; from \<open>10^21\<close> on
  and for the non-finite values it prints the number itself. The value read back is kept
  as the decimal that was printed: the double that parseFloat makes of it compares with
  18.5, 25 and 30 as the decimal does.
\<close>

datatype xnum = Fin real | PosInfinity | NegInfinity | NaN



fun numLess :: "xnum \<Rightarrow> real \<Rightarrow> bool" where
  "numLess (Fin x) c = (x < c)"
| "numLess NegInfinity c = True"
| "numLess PosInfinity c = False"
| "numLess NaN c = False"

fun numAtLeast :: "xnum \<Rightarrow> real \<Rightarrow> bool" where
  "numAtLeast (Fin x) c = (x \<ge> c)"
| "numAtLeast PosInfinity c = True"
| "numAtLeast NegInfinity c = False"
| "numAtLeast NaN c = False"


definition bmiCategoryOf :: "xnum \<Rightarrow> string" where
  "bmiCategoryOf v =
     (if numLess v 18.5 then ''Underweight''
      else if numAtLeast v 18.5 \<and> numLess v 25 then ''Healthy''
      else if numAtLeast v 25 \<and> numLess v 30 then ''Overweight''
      else ''Obese'')"


section \<open>Notions used to state the properties\<close>

text \<open>The Nutrition state after an analysis of the chosen image has failed: the preview
  shows the image, no analysis result is held, the spinner is off and the failure message
  has been shown.\<close>

definition failedState :: "string option \<Rightarrow> Nutrition \<Rightarrow> Nutrition" where
  "failedState readerResult n =
     n\<lparr>preview := readerResult, analysisResult := None, isAnalyzing := False,
       alerts := alerts n @ [''Failed to analyze image. Please try again.'']\<rparr>"

text \<open>
  The streak in the words of the specification: starting at day \<open>d\<close>, the number of
  consecutive calendar days, stepping back one day at a time, that are in the list of
  workout days, up to the first gap.
\<close>

function consecutiveDays :: "int list \<Rightarrow> int \<Rightarrow> nat" where
  "consecutiveDays ds d =
     (if d \<in> set ds then Suc (consecutiveDays (removeAll d ds) (d - 1)) else 0)"
  by pat_completeness auto
termination
  by (relation "measure (\<lambda>(ds, d). length ds)") (auto simp: length_removeAll_less)

declare consecutiveDays.simps [simp del]

definition workoutDays :: "WorkoutSession list \<Rightarrow> int list" where
  "workoutDays workouts = map (\<lambda>w. isoDate (ws_date w)) workouts"



section \<open>Sample data\<close>

text \<open>Concrete values on which the theorems below are instantiated.\<close>

definition sampleExercise :: "string \<Rightarrow> number \<Rightarrow> number \<Rightarrow> number \<Rightarrow> Exercise" where
  "sampleExercise i w r s =
     \<lparr>ex_id = i, ex_name = ''Bench Press'', ex_sets = s, ex_reps = r, ex_weight = w,
      ex_completed = True\<rparr>"

definition sampleSession :: "string \<Rightarrow> int \<Rightarrow> Exercise list \<Rightarrow> WorkoutSession" where
  "sampleSession i t exs =
     \<lparr>ws_id = i, ws_date = t, ws_name = ''Push Day'', ws_exercises = exs,
      ws_durationMinutes = 30, ws_caloriesBurned = 170, ws_goal = Some [],
      ws_goalAchieved = Some False\<rparr>"

definition sampleApp :: "WorkoutSession list \<Rightarrow> App" where
  "sampleApp ws =
     \<lparr>app_currentView = workout, app_workouts = ws, app_meals = [], app_userProfile = None\<rparr>"

definition sampleProfile :: "number \<Rightarrow> number \<Rightarrow> UserProfile" where
  "sampleProfile w h =
     \<lparr>u_name = ''Alex'', u_gender = Male, u_age = 30, u_weight = w, u_height = h,
      u_goal = ''Lose Weight'', u_activityLevel = MODERATE, u_weightHistory = []\<rparr>"

definition sampleWorkout :: "string \<Rightarrow> Exercise list \<Rightarrow> nat \<Rightarrow> Workout" where
  "sampleWorkout n exs secs =
     \<lparr>isLogging = True, currentSessionName = n, currentGoal = ''Hit a new PR'',
      goalAchieved = False, currentExercises = exs, isGenerating = False, aiStrategy = None,
      elapsedSeconds = secs, isTimerRunning = True\<rparr>"

text \<open>
  A parser known on finitely many texts: each listed text parses to the document listed
  with it, as \<^verbatim>\<open>JSON.parse\<close> does on that text; a text that is not listed is taken to be
  malformed.
\<close>

definition tableParser :: "(string \<times> jsv) list \<Rightarrow> json_parser" where
  "tableParser table text =
     (case map_of table text of Some v \<Rightarrow> Inr v | None \<Rightarrow> Inl SyntaxError)"

text \<open>A reply of the service that obeys the schema but for the missing \<^verbatim>\<open>calories\<close>,
  and the document \<^verbatim>\<open>JSON.parse\<close> makes of it.\<close>

definition appleText :: string where
  \<open>appleText =
     ''{"name":"Apple","protein":0.5,"carbs":25,"fat":0.3,"description":"A fresh apple."}''\<close>

definition appleDoc :: jsv where
  "appleDoc =
     JObj [(''name'', JStr ''Apple''), (''protein'', JNum 0.5), (''carbs'', JNum 25),
           (''fat'', JNum 0.3), (''description'', JStr ''A fresh apple.'')]"

definition sampleAnalysis :: Analysis where
  "sampleAnalysis =
     \<lparr>an_name = JStr ''Oatmeal'',
      an_macros = \<lparr>calories = JNum 150, protein = JNum 5, carbs = JNum 27, fat = JNum 3\<rparr>,
      an_description = JStr ''Whole grains.''\<rparr>"

definition sampleNutrition :: "Analysis option \<Rightarrow> Nutrition" where
  "sampleNutrition r =
     \<lparr>isAnalyzing = False, preview = Some ''data:image/png;base64,AAAA'', analysisResult = r,
      alerts = []\<rparr>"

section \<open>Session store: update by id\<close>

lemma map_replace_distinct:
  assumes "distinct (map f xs)" "k < length xs" "f (xs ! k) = f u"
  shows "map (\<lambda>w. if f w = f u then u else w) xs = xs[k := u]"
proof (rule nth_equalityI)
  show "length (map (\<lambda>w. if f w = f u then u else w) xs) = length (xs[k := u])" by simp
next
  fix i assume i: "i < length (map (\<lambda>w. if f w = f u then u else w) xs)"
  then have il: "i < length xs" by simp
  show "map (\<lambda>w. if f w = f u then u else w) xs ! i = xs[k := u] ! i"
  proof (cases "i = k")
    case True
    with assms il show ?thesis by simp
  next
    case False
    have "f (xs ! i) \<noteq> f (xs ! k)"
      using nth_eq_iff_index_eq [of "map f xs" i k] assms(1,2) il False by simp
    with assms(3) il False show ?thesis by simp
  qed
qed

lemma map_replace_absent:
  assumes "f u \<notin> f ` set xs"
  shows "map (\<lambda>w. if f w = f u then u else w) xs = xs"
  using assms by (induction xs) auto

text \<open>
  C7. In a workout collection whose session ids are unique (the data model's invariant on
  WorkoutSession.id), updating with a session \<open>u\<close> whose id is that of the entry at
  position \<open>k\<close> yields the same list with position \<open>k\<close> holding \<open>u\<close>: the entry is
  replaced in full, every other entry and the order are kept. Updating with an id that no
  entry has returns the App state unchanged. Adding a workout and then updating it by its
  id leaves the updated session in front of the untouched older sessions. Meals, view and
  profile are never touched by an update.
\<close>

theorem handleUpdateWorkout_replaces_one:
  assumes "distinct (map ws_id (app_workouts app))"
  shows "(\<forall>k < length (app_workouts app).
            ws_id (app_workouts app ! k) = ws_id u \<longrightarrow>
            app_workouts (handleUpdateWorkout u app) = (app_workouts app)[k := u])
       \<and> (ws_id u \<notin> ws_id ` set (app_workouts app) \<longrightarrow> handleUpdateWorkout u app = app)
       \<and> (ws_id u \<notin> ws_id ` set (app_workouts app) \<longrightarrow>
            app_workouts (handleUpdateWorkout u (handleAddWorkout (w\<lparr>ws_id := ws_id u\<rparr>) app))
              = u # app_workouts app)
       \<and> app_meals (handleUpdateWorkout u app) = app_meals app
       \<and> app_currentView (handleUpdateWorkout u app) = app_currentView app
       \<and> app_userProfile (handleUpdateWorkout u app) = app_userProfile app"
proof (intro conjI allI impI)
  fix k assume "k < length (app_workouts app)" "ws_id (app_workouts app ! k) = ws_id u"
  with assms show "app_workouts (handleUpdateWorkout u app) = (app_workouts app)[k := u]"
    by (simp add: handleUpdateWorkout_def map_replace_distinct)
next
  assume "ws_id u \<notin> ws_id ` set (app_workouts app)"
  then show "handleUpdateWorkout u app = app"
    by (simp add: handleUpdateWorkout_def map_replace_absent)
next
  assume "ws_id u \<notin> ws_id ` set (app_workouts app)"
  then show "app_workouts (handleUpdateWorkout u (handleAddWorkout (w\<lparr>ws_id := ws_id u\<rparr>) app))
              = u # app_workouts app"
    by (simp add: handleUpdateWorkout_def handleAddWorkout_def map_replace_absent)
qed (simp_all add: handleUpdateWorkout_def)

text \<open>Instance: in the collection a, b, c the update of b replaces the middle entry only;
  in the collection a, b an update with the unknown id z changes nothing.\<close>

theorem handleUpdateWorkout_replaces_one_witness:
  "handleUpdateWorkout (sampleSession ''b'' 9 [])
     (sampleApp [sampleSession ''a'' 1 [], sampleSession ''b'' 2 [], sampleSession ''c'' 3 []])
   = sampleApp [sampleSession ''a'' 1 [], sampleSession ''b'' 9 [], sampleSession ''c'' 3 []]
   \<and> handleUpdateWorkout (sampleSession ''z'' 9 [])
     (sampleApp [sampleSession ''a'' 1 [], sampleSession ''b'' 2 []])
   = sampleApp [sampleSession ''a'' 1 [], sampleSession ''b'' 2 []]"
proof -
  let ?ws = "[sampleSession ''a'' 1 [], sampleSession ''b'' 2 [], sampleSession ''c'' 3 []]"
  have d: "distinct (map ws_id (app_workouts (sampleApp ?ws)))"
    by (simp add: sampleApp_def sampleSession_def)
  have d2: "distinct (map ws_id
              (app_workouts (sampleApp [sampleSession ''a'' 1 [], sampleSession ''b'' 2 []])))"
    by (simp add: sampleApp_def sampleSession_def)
  from handleUpdateWorkout_replaces_one
         [OF d, of "sampleSession ''b'' 9 []", THEN conjunct1, rule_format, of 1]
  have "app_workouts (handleUpdateWorkout (sampleSession ''b'' 9 []) (sampleApp ?ws))
          = (app_workouts (sampleApp ?ws))[1 := sampleSession ''b'' 9 []]"
    by (simp add: sampleApp_def sampleSession_def)
  then have a: "handleUpdateWorkout (sampleSession ''b'' 9 []) (sampleApp ?ws)
     = sampleApp [sampleSession ''a'' 1 [], sampleSession ''b'' 9 [], sampleSession ''c'' 3 []]"
    by (simp add: sampleApp_def handleUpdateWorkout_def)
  from handleUpdateWorkout_replaces_one [OF d2, of "sampleSession ''z'' 9 []"]
  have b: "handleUpdateWorkout (sampleSession ''z'' 9 [])
     (sampleApp [sampleSession ''a'' 1 [], sampleSession ''b'' 2 []])
   = sampleApp [sampleSession ''a'' 1 [], sampleSession ''b'' 2 []]"
    by (simp add: sampleApp_def sampleSession_def)
  from a b show ?thesis by simp
qed

section \<open>Workout component: finishing a session\<close>

text \<open>
  C8. finishSession does nothing (App state and component state are returned as they
  were) when the session name is empty or there is no exercise. Otherwise the store
  receives exactly one new session, placed in front of the sessions it held, with
  durationMinutes = max(1, ceil(elapsedSeconds/60)) and
  caloriesBurned = floor(durationMinutes * 5 + exerciseCount * 20), and the component
  leaves the logging state. With 125 elapsed seconds and 2 exercises the new session has
  durationMinutes 3 and caloriesBurned 55.
\<close>

theorem finishSession_guard_and_stats:
  "(currentSessionName w = [] \<or> currentExercises w = [] \<longrightarrow>
      finishSession now (app, w) = (app, w))
   \<and> (currentSessionName w \<noteq> [] \<and> currentExercises w \<noteq> [] \<longrightarrow>
        app_workouts (fst (finishSession now (app, w)))
          = \<lparr>ws_id = Number_toString now, ws_date = now,
             ws_name = currentSessionName w, ws_exercises = currentExercises w,
             ws_durationMinutes = real_of_int (max 1 \<lceil>real (elapsedSeconds w) / 60\<rceil>),
             ws_caloriesBurned =
               real_of_int \<lfloor>real_of_int (max 1 \<lceil>real (elapsedSeconds w) / 60\<rceil>) * 5
                              + real (length (currentExercises w)) * 20\<rfloor>,
             ws_goal = Some (currentGoal w), ws_goalAchieved = Some (goalAchieved w)\<rparr>
            # app_workouts app
      \<and> \<not> isLogging (snd (finishSession now (app, w))))
   \<and> (currentSessionName w \<noteq> [] \<and> elapsedSeconds w = 125 \<and> length (currentExercises w) = 2 \<longrightarrow>
        map ws_durationMinutes (app_workouts (fst (finishSession now (app, w))))
          = 3 # map ws_durationMinutes (app_workouts app)
      \<and> map ws_caloriesBurned (app_workouts (fst (finishSession now (app, w))))
          = 55 # map ws_caloriesBurned (app_workouts app))"
proof (intro conjI impI)
  assume "currentSessionName w = [] \<or> currentExercises w = []"
  then show "finishSession now (app, w) = (app, w)"
    by (auto simp: finishSession_def)
next
  assume a: "currentSessionName w \<noteq> [] \<and> elapsedSeconds w = 125 \<and> length (currentExercises w) = 2"
  then have ne: "currentExercises w \<noteq> []" by auto
  from a ne show "map ws_durationMinutes (app_workouts (fst (finishSession now (app, w))))
          = 3 # map ws_durationMinutes (app_workouts app)"
    by (simp add: finishSession_def handleAddWorkout_def sessionDuration_def Math_ceil_def Let_def)
  from a ne show "map ws_caloriesBurned (app_workouts (fst (finishSession now (app, w))))
          = 55 # map ws_caloriesBurned (app_workouts app)"
    by (simp add: finishSession_def handleAddWorkout_def sessionDuration_def sessionCalories_def
        Math_ceil_def Math_floor_def Let_def)
qed (simp_all add: finishSession_def handleAddWorkout_def sessionDuration_def sessionCalories_def
        Math_ceil_def Math_floor_def Let_def)

text \<open>Instances: no name, then no exercise (both leave everything as it was), then a
  named session of 125 seconds with two exercises finished into an empty store.\<close>

theorem finishSession_guard_and_stats_witness:
  "finishSession 1730138400000 (sampleApp [], sampleWorkout [] [sampleExercise ''1'' 50 10 10] 125)
     = (sampleApp [], sampleWorkout [] [sampleExercise ''1'' 50 10 10] 125)
   \<and> finishSession 1730138400000 (sampleApp [], sampleWorkout ''Push Day'' [] 125)
     = (sampleApp [], sampleWorkout ''Push Day'' [] 125)
   \<and> map ws_durationMinutes (app_workouts (fst (finishSession 1730138400000
        (sampleApp [], sampleWorkout ''Push Day''
           [sampleExercise ''1'' 50 10 10, sampleExercise ''2'' 20 12 3] 125)))) = [3]
   \<and> map ws_caloriesBurned (app_workouts (fst (finishSession 1730138400000
        (sampleApp [], sampleWorkout ''Push Day''
           [sampleExercise ''1'' 50 10 10, sampleExercise ''2'' 20 12 3] 125)))) = [55]"
proof -
  let ?two = "[sampleExercise ''1'' 50 10 10, sampleExercise ''2'' 20 12 3]"
  have 1: "currentSessionName (sampleWorkout [] [sampleExercise ''1'' 50 10 10] 125) = []
           \<or> currentExercises (sampleWorkout [] [sampleExercise ''1'' 50 10 10] 125) = []"
    by (simp add: sampleWorkout_def)
  have 2: "currentSessionName (sampleWorkout ''Push Day'' [] 125) = []
           \<or> currentExercises (sampleWorkout ''Push Day'' [] 125) = []"
    by (simp add: sampleWorkout_def)
  have 3: "currentSessionName (sampleWorkout ''Push Day'' ?two 125) \<noteq> []
           \<and> elapsedSeconds (sampleWorkout ''Push Day'' ?two 125) = 125
           \<and> length (currentExercises (sampleWorkout ''Push Day'' ?two 125)) = 2"
    by (simp add: sampleWorkout_def)
  note a = finishSession_guard_and_stats
             [THEN conjunct1, rule_format, OF 1, of 1730138400000 "sampleApp []"]
  note b = finishSession_guard_and_stats
             [THEN conjunct1, rule_format, OF 2, of 1730138400000 "sampleApp []"]
  note c = finishSession_guard_and_stats
             [THEN conjunct2, THEN conjunct2, rule_format, OF 3, of 1730138400000 "sampleApp []"]
  have e: "app_workouts (sampleApp []) = []" by (simp add: sampleApp_def)
  from c have c': "map ws_durationMinutes (app_workouts (fst (finishSession 1730138400000
        (sampleApp [], sampleWorkout ''Push Day'' ?two 125)))) = [3]
   \<and> map ws_caloriesBurned (app_workouts (fst (finishSession 1730138400000
        (sampleApp [], sampleWorkout ''Push Day'' ?two 125)))) = [55]"
    unfolding e by simp
  show ?thesis by (intro conjI a b c' [THEN conjunct1] c' [THEN conjunct2])
qed

section \<open>Double-precision arithmetic: rounding error and exact cases\<close>

















section \<open>Profile component: the Heavy Lifter badge\<close>









section \<open>Dashboard component: the daily calorie target\<close>

text \<open>
  C4. For every profile the calorie goal is the Mifflin-St Jeor value
  10 * weight + 6.25 * height - 5 * age, plus 5 for gender Male and minus 161 otherwise,
  multiplied by the activity factor (1.2, 1.375, 1.55, 1.725), adjusted by the goal
  (minus 500 for Lose Weight, plus 300 for Build Muscle, nothing for any other goal) and
  rounded to the nearest integer (a half rounds up, as \<^verbatim>\<open>Math.round\<close> and \<^const>\<open>round\<close>
  both do). The arithmetic is exact; see the remark on numbers at the top.
\<close>

theorem calculateTargets_formula:
  "calorieGoal (calculateTargets p) =
     round ((case u_activityLevel p of
               SEDENTARY \<Rightarrow> 1.2 | LIGHT \<Rightarrow> 1.375 | MODERATE \<Rightarrow> 1.55 | VERY \<Rightarrow> 1.725)
            * (10 * u_weight p + 6.25 * u_height p - 5 * u_age p
               + (if u_gender p = Male then 5 else - 161))
            + (if u_goal p = ''Lose Weight'' then - 500
               else if u_goal p = ''Build Muscle'' then 300 else 0))"
  by (cases "u_activityLevel p")
     (simp_all add: calculateTargets_def Math_round_def round_def Let_def mult.commute)

text \<open>Instance: male, 30 years, 80 kg, 180 cm, moderately active, losing weight:
  1.55 * (800 + 1125 - 150 + 5) - 500 = 2259.\<close>

theorem calculateTargets_formula_witness:
  "calorieGoal (calculateTargets (sampleProfile 80 180)) = 2259"
proof -
  have "calorieGoal (calculateTargets (sampleProfile 80 180)) = round (2259 :: real)"
    using calculateTargets_formula [of "sampleProfile 80 180"]
    by (simp add: sampleProfile_def)
  then show ?thesis by simp
qed

section \<open>Profile component: BMI and its category\<close>

lemma bmiCategoryOf_Fin:
  "bmiCategoryOf (Fin x) =
     (if x < 18.5 then ''Underweight'' else if x < 25 then ''Healthy''
      else if x < 30 then ''Overweight'' else ''Obese'')"
  by (simp add: bmiCategoryOf_def)








section \<open>AI orchestration: the fallback workout plan\<close>

text \<open>
  C5. Whenever plan generation fails, by a rejected request, by a response whose text is
  absent or empty, or by a text that \<^verbatim>\<open>JSON.parse\<close> rejects (in general: whenever the try
  block throws), generateWorkoutPlan returns the static fallback plan, and it never ends
  in an exception. The fallback plan is Quick HIIT Blast with the three exercises
  Jumping Jacks, Pushups and Squats, each with weightSuggestion 0. When the try block
  yields a plan, that plan is returned.
\<close>

theorem generateWorkoutPlan_fallback:
  "generateWorkoutPlan JSON_parse (Throws e) = Inr fallbackPlan
   \<and> (\<not> truthy text \<longrightarrow> generateWorkoutPlan JSON_parse (Responds text) = Inr fallbackPlan)
   \<and> (JSON_parse t = Inl e \<longrightarrow> generateWorkoutPlan JSON_parse (Responds (Some t)) = Inr fallbackPlan)
   \<and> (generateWorkoutPlan_body JSON_parse response = Inl e \<longrightarrow>
         generateWorkoutPlan JSON_parse response = Inr fallbackPlan)
   \<and> (generateWorkoutPlan_body JSON_parse response = Inr plan \<longrightarrow>
         generateWorkoutPlan JSON_parse response = Inr plan)
   \<and> generateWorkoutPlan JSON_parse response \<noteq> Inl e
   \<and> map (propOf ''name'') (planExercises fallbackPlan)
        = [JStr ''Jumping Jacks'', JStr ''Pushups'', JStr ''Squats'']
   \<and> map (propOf ''weightSuggestion'') (planExercises fallbackPlan) = [JNum 0, JNum 0, JNum 0]
   \<and> map (propOf ''sets'') (planExercises fallbackPlan) = [JNum 3, JNum 3, JNum 3]
   \<and> map (propOf ''reps'') (planExercises fallbackPlan) = [JNum 30, JNum 10, JNum 15]
   \<and> propOf ''workoutName'' fallbackPlan = JStr ''Quick HIIT Blast''"
proof (intro conjI impI)
  show "generateWorkoutPlan JSON_parse (Throws e) = Inr fallbackPlan"
    by (simp add: generateWorkoutPlan_def generateWorkoutPlan_body_def catch_def)
  show "generateWorkoutPlan JSON_parse (Responds text) = Inr fallbackPlan" if "\<not> truthy text"
    using that by (simp add: generateWorkoutPlan_def generateWorkoutPlan_body_def catch_def)
  show "generateWorkoutPlan JSON_parse (Responds (Some t)) = Inr fallbackPlan"
    if "JSON_parse t = Inl e"
    using that by (simp add: generateWorkoutPlan_def generateWorkoutPlan_body_def catch_def)
  show "generateWorkoutPlan JSON_parse response = Inr fallbackPlan"
    if "generateWorkoutPlan_body JSON_parse response = Inl e"
    using that by (simp add: generateWorkoutPlan_def catch_def)
  show "generateWorkoutPlan JSON_parse response = Inr plan"
    if "generateWorkoutPlan_body JSON_parse response = Inr plan"
    using that by (simp add: generateWorkoutPlan_def catch_def)
  show "generateWorkoutPlan JSON_parse response \<noteq> Inl e"
    by (simp add: generateWorkoutPlan_def catch_def split: sum.splits)
qed (simp_all add: fallbackPlan_def fallbackExercise_def planExercises_def propOf_def)

text \<open>Instances: a rejected request, a response without text, a response with empty
  text, and a text that is not JSON.\<close>

theorem generateWorkoutPlan_fallback_witness:
  "generateWorkoutPlan (tableParser []) (Throws (ApiError ''fetch failed'')) = Inr fallbackPlan
   \<and> generateWorkoutPlan (tableParser []) (Responds None) = Inr fallbackPlan
   \<and> generateWorkoutPlan (tableParser []) (Responds (Some [])) = Inr fallbackPlan
   \<and> generateWorkoutPlan (tableParser []) (Responds (Some ''{oops'')) = Inr fallbackPlan"
proof -
  have 1: "\<not> truthy None" and 2: "\<not> truthy (Some [])" by (simp_all add: truthy_def)
  have 3: "tableParser [] ''{oops'' = Inl SyntaxError" by (simp add: tableParser_def)
  note g = generateWorkoutPlan_fallback
             [where JSON_parse = "tableParser []" and t = "''{oops''" and e = SyntaxError]
  note h = generateWorkoutPlan_fallback
             [where JSON_parse = "tableParser []" and e = "ApiError ''fetch failed''"]
  show ?thesis
    by (intro conjI
          h [THEN conjunct1]
          h [THEN conjunct2, THEN conjunct1, rule_format, OF 1]
          h [THEN conjunct2, THEN conjunct1, rule_format, OF 2]
          g [THEN conjunct2, THEN conjunct2, THEN conjunct1, rule_format, OF 3])
qed

section \<open>AI orchestration: coaching with an empty history\<close>

text \<open>
  C10. With an empty message history the try block of getFitnessCoaching throws a
  TypeError (the read of \<^verbatim>\<open>.role\<close> on the missing last entry) once the chat has been
  created; the catch block turns that, like any exception of the block, into the fixed
  connection-trouble string. So the call does not end in an exception and does not
  return the empty string.
\<close>

theorem getFitnessCoaching_empty_history:
  "getFitnessCoaching_body None sendMessage [] = Inl TypeError
   \<and> getFitnessCoaching create sendMessage [] = Inr coachingFallback
   \<and> coachingFallback \<noteq> []
   \<and> coachingFallback =
       ''I'm having trouble connecting to the fitness server. Let's focus on your breathing for a moment.''"
  by (simp add: getFitnessCoaching_def getFitnessCoaching_body_def catch_def coachingFallback_def
           split: option.splits)

text \<open>Instances: an empty history with a working service, and with a chat that cannot even
  be created.\<close>

theorem getFitnessCoaching_empty_history_witness:
  "getFitnessCoaching None (\<lambda>m. Responds (Some ''Great work!'')) [] = Inr coachingFallback
   \<and> getFitnessCoaching (Some (Error ''invalid history'')) (\<lambda>m. Throws (ApiError ''offline'')) []
       = Inr coachingFallback"
  using getFitnessCoaching_empty_history [of "\<lambda>m. Responds (Some ''Great work!'')" None]
        getFitnessCoaching_empty_history
          [of "\<lambda>m. Throws (ApiError ''offline'')" "Some (Error ''invalid history'')"]
  by simp

section \<open>AI orchestration: food image analysis\<close>

lemma analyzeFoodImage_parsed:
  assumes "t \<noteq> []" "JSON_parse t = Inr data" "data \<noteq> JNull" "data \<noteq> JUndefined"
  shows "analyzeFoodImage JSON_parse (Responds (Some t)) =
           Inr \<lparr>an_name = propOf ''name'' data,
                an_macros = \<lparr>calories = propOf ''calories'' data,
                             protein = propOf ''protein'' data,
                             carbs = propOf ''carbs'' data,
                             fat = propOf ''fat'' data\<rparr>,
                an_description = propOf ''description'' data\<rparr>"
proof -
  have g: "\<And>k. getProp data k = Inr (propOf k data)"
    using assms(3,4) by (cases data) (simp_all add: propOf_def split: option.splits)
  show ?thesis
    using assms(1,2)
    by (simp add: analyzeFoodImage_def analyzeFoodImage_body_def catch_def andThen_def
                  truthy_def g)
qed

lemma analyzeFoodImage_thrown:
  "analyzeFoodImage JSON_parse (Throws e) = Inl e"
  "\<not> truthy text \<Longrightarrow>
     analyzeFoodImage JSON_parse (Responds text) = Inl (Error ''No response from AI'')"
  "t \<noteq> [] \<Longrightarrow> JSON_parse t = Inl e \<Longrightarrow>
     analyzeFoodImage JSON_parse (Responds (Some t)) = Inl e"
  "t \<noteq> [] \<Longrightarrow> JSON_parse t = Inr JNull \<or> JSON_parse t = Inr JUndefined \<Longrightarrow>
     analyzeFoodImage JSON_parse (Responds (Some t)) = Inl TypeError"
  by (auto simp: analyzeFoodImage_def analyzeFoodImage_body_def catch_def andThen_def truthy_def)

lemma analyzeFoodImage_fails_iff:
  "isl (analyzeFoodImage JSON_parse response) \<longleftrightarrow>
     (\<exists>e. response = Throws e)
     \<or> (\<exists>text. response = Responds text \<and> \<not> truthy text)
     \<or> (\<exists>t. response = Responds (Some t) \<and> t \<noteq> []
            \<and> (isl (JSON_parse t) \<or> JSON_parse t = Inr JNull \<or> JSON_parse t = Inr JUndefined))"
proof (cases response)
  case (Throws e)
  then show ?thesis by (simp add: analyzeFoodImage_thrown)
next
  case (Responds tx)
  show ?thesis
  proof (cases "truthy tx")
    case False
    with Responds show ?thesis by (auto simp: analyzeFoodImage_thrown)
  next
    case True
    then obtain t where t: "tx = Some t" "t \<noteq> []"
      by (cases tx) (auto simp: truthy_def)
    show ?thesis
    proof (cases "JSON_parse t")
      case (Inl e)
      with Responds t show ?thesis by (auto simp: analyzeFoodImage_thrown truthy_def)
    next
      case (Inr data)
      show ?thesis
      proof (cases "data = JNull \<or> data = JUndefined")
        case True
        with Inr have "JSON_parse t = Inr JNull \<or> JSON_parse t = Inr JUndefined" by auto
        with Responds t Inr show ?thesis
          by (auto simp: analyzeFoodImage_thrown(4) truthy_def)
      next
        case False
        then have "data \<noteq> JNull" and "data \<noteq> JUndefined" by simp_all
        from analyzeFoodImage_parsed [of t JSON_parse data, OF t(2) Inr this]
        have "\<not> isl (analyzeFoodImage JSON_parse (Responds (Some t)))" by simp
        with Responds t Inr False show ?thesis by (auto simp: truthy_def)
      qed
    qed
  qed
qed

text \<open>
  C1, as claimed, fails: the service answers with a document that has no \<^verbatim>\<open>calories\<close>
  property, and analyzeFoodImage returns a success result whose calories are
  \<^verbatim>\<open>undefined\<close>.
\<close>

theorem analyzeFoodImage_missing_field_counterexample:
  "analyzeFoodImage (tableParser [(appleText, appleDoc)]) (Responds (Some appleText))
     = Inr \<lparr>an_name = JStr ''Apple'',
            an_macros = \<lparr>calories = JUndefined, protein = JNum 0.5, carbs = JNum 25,
                         fat = JNum 0.3\<rparr>,
            an_description = JStr ''A fresh apple.''\<rparr>"
  by (simp add: analyzeFoodImage_def analyzeFoodImage_body_def catch_def andThen_def
                truthy_def tableParser_def appleText_def appleDoc_def)

text \<open>
  C1, amended. When the service responds with a non-empty text that \<^verbatim>\<open>JSON.parse\<close> turns
  into any document other than \<^verbatim>\<open>null\<close>, analyzeFoodImage succeeds: each of the six
  fields of the result is the document's property of that name, and a property the
  document does not have (a required numeric one included; every one of them when the
  document is not an object) is left \<^verbatim>\<open>undefined\<close>. Absence is neither treated as a
  failure nor zero-filled. The operation fails exactly when the request throws (with the
  request's exception), when the response text is absent or empty (with the error No
  response from AI), when \<^verbatim>\<open>JSON.parse\<close> throws (with the parser's exception), or when the
  parsed value is \<^verbatim>\<open>null\<close> (with a TypeError; likewise for \<^verbatim>\<open>undefined\<close>, which
  \<^verbatim>\<open>JSON.parse\<close> never yields).
\<close>

theorem analyzeFoodImage_passes_absent_fields:
  "(t \<noteq> [] \<and> JSON_parse t = Inr data \<and> data \<noteq> JNull \<and> data \<noteq> JUndefined \<longrightarrow>
      analyzeFoodImage JSON_parse (Responds (Some t)) =
        Inr \<lparr>an_name = propOf ''name'' data,
             an_macros = \<lparr>calories = propOf ''calories'' data,
                          protein = propOf ''protein'' data,
                          carbs = propOf ''carbs'' data,
                          fat = propOf ''fat'' data\<rparr>,
             an_description = propOf ''description'' data\<rparr>)
   \<and> (k \<notin> fst ` set kvs \<longrightarrow> propOf k (JObj kvs) = JUndefined)
   \<and> ((\<forall>kvs. data \<noteq> JObj kvs) \<longrightarrow> propOf k data = JUndefined)
   \<and> (isl (analyzeFoodImage JSON_parse response) \<longleftrightarrow>
        (\<exists>e. response = Throws e)
        \<or> (\<exists>text. response = Responds text \<and> \<not> truthy text)
        \<or> (\<exists>t. response = Responds (Some t) \<and> t \<noteq> []
               \<and> (isl (JSON_parse t) \<or> JSON_parse t = Inr JNull
                   \<or> JSON_parse t = Inr JUndefined)))
   \<and> analyzeFoodImage JSON_parse (Throws e) = Inl e
   \<and> (\<not> truthy text \<longrightarrow>
        analyzeFoodImage JSON_parse (Responds text) = Inl (Error ''No response from AI''))
   \<and> (t \<noteq> [] \<and> JSON_parse t = Inl e \<longrightarrow>
        analyzeFoodImage JSON_parse (Responds (Some t)) = Inl e)
   \<and> (t \<noteq> [] \<and> (JSON_parse t = Inr JNull \<or> JSON_parse t = Inr JUndefined) \<longrightarrow>
        analyzeFoodImage JSON_parse (Responds (Some t)) = Inl TypeError)"
proof (intro conjI impI)
  assume "t \<noteq> [] \<and> JSON_parse t = Inr data \<and> data \<noteq> JNull \<and> data \<noteq> JUndefined"
  then show "analyzeFoodImage JSON_parse (Responds (Some t)) =
        Inr \<lparr>an_name = propOf ''name'' data,
             an_macros = \<lparr>calories = propOf ''calories'' data,
                          protein = propOf ''protein'' data,
                          carbs = propOf ''carbs'' data,
                          fat = propOf ''fat'' data\<rparr>,
             an_description = propOf ''description'' data\<rparr>"
    by (intro analyzeFoodImage_parsed) blast+
next
  assume "k \<notin> fst ` set kvs"
  then have "map_of kvs k = None" by (simp add: map_of_eq_None_iff)
  then show "propOf k (JObj kvs) = JUndefined" by (simp add: propOf_def)
next
  assume "\<forall>kvs. data \<noteq> JObj kvs"
  then show "propOf k data = JUndefined" by (cases data) (simp_all add: propOf_def)
next
  show "isl (analyzeFoodImage JSON_parse response) \<longleftrightarrow>
        (\<exists>e. response = Throws e)
        \<or> (\<exists>text. response = Responds text \<and> \<not> truthy text)
        \<or> (\<exists>t. response = Responds (Some t) \<and> t \<noteq> []
               \<and> (isl (JSON_parse t) \<or> JSON_parse t = Inr JNull
                   \<or> JSON_parse t = Inr JUndefined))"
    by (rule analyzeFoodImage_fails_iff)
next
  show "analyzeFoodImage JSON_parse (Throws e) = Inl e" by (rule analyzeFoodImage_thrown(1))
next
  assume "\<not> truthy text"
  then show "analyzeFoodImage JSON_parse (Responds text) = Inl (Error ''No response from AI'')"
    by (rule analyzeFoodImage_thrown(2))
next
  assume "t \<noteq> [] \<and> JSON_parse t = Inl e"
  then show "analyzeFoodImage JSON_parse (Responds (Some t)) = Inl e"
    by (intro analyzeFoodImage_thrown(3)) blast+
next
  assume "t \<noteq> [] \<and> (JSON_parse t = Inr JNull \<or> JSON_parse t = Inr JUndefined)"
  then show "analyzeFoodImage JSON_parse (Responds (Some t)) = Inl TypeError"
    by (intro analyzeFoodImage_thrown(4)) blast+
qed

text \<open>Instances: the reply without calories succeeds with calories undefined; the reply
  \<^verbatim>\<open>42\<close>, not an object, succeeds with every field undefined; a text that is not JSON
  fails with the parser's exception.\<close>

theorem analyzeFoodImage_passes_absent_fields_witness:
  "calories (an_macros (projr
      (analyzeFoodImage (tableParser [(appleText, appleDoc)]) (Responds (Some appleText)))))
     = JUndefined
   \<and> \<not> isl (analyzeFoodImage (tableParser [(appleText, appleDoc)]) (Responds (Some appleText)))
   \<and> analyzeFoodImage (tableParser [(''42'', JNum 42)]) (Responds (Some ''42''))
       = Inr \<lparr>an_name = JUndefined,
              an_macros = \<lparr>calories = JUndefined, protein = JUndefined, carbs = JUndefined,
                           fat = JUndefined\<rparr>,
              an_description = JUndefined\<rparr>
   \<and> analyzeFoodImage (tableParser [(appleText, appleDoc)]) (Responds (Some ''{''))
       = Inl SyntaxError"
proof -
  let ?kvs = "[(''name'', JStr ''Apple''), (''protein'', JNum 0.5),
               (''carbs'', JNum 25), (''fat'', JNum 0.3),
               (''description'', JStr ''A fresh apple.'')]"
  have p: "appleText \<noteq> [] \<and> tableParser [(appleText, appleDoc)] appleText = Inr (JObj ?kvs)
           \<and> JObj ?kvs \<noteq> JNull \<and> JObj ?kvs \<noteq> JUndefined"
    by (simp add: tableParser_def appleText_def appleDoc_def)
  have n: "''42'' \<noteq> [] \<and> tableParser [(''42'', JNum 42)] ''42'' = Inr (JNum 42)
           \<and> JNum 42 \<noteq> JNull \<and> JNum 42 \<noteq> JUndefined"
    by (simp add: tableParser_def)
  have q: "''{'' \<noteq> [] \<and> tableParser [(appleText, appleDoc)] ''{'' = Inl SyntaxError"
    by (simp add: tableParser_def appleText_def)
  note a = analyzeFoodImage_passes_absent_fields
             [where JSON_parse = "tableParser [(appleText, appleDoc)]" and t = appleText
                and data = "JObj ?kvs", THEN conjunct1, rule_format, OF p]
  note c = analyzeFoodImage_passes_absent_fields
             [where JSON_parse = "tableParser [(''42'', JNum 42)]" and t = "''42''"
                and data = "JNum 42", THEN conjunct1, rule_format, OF n]
  note b = analyzeFoodImage_passes_absent_fields
             [where JSON_parse = "tableParser [(appleText, appleDoc)]" and t = "''{''"
                and e = SyntaxError,
              THEN conjunct2, THEN conjunct2, THEN conjunct2, THEN conjunct2, THEN conjunct2,
              THEN conjunct2, THEN conjunct1, rule_format, OF q]
  show ?thesis
    unfolding a b c by (simp add: propOf_def)
qed

section \<open>Nutrition component: a failed analysis\<close>

lemma analyzeFoodImage_failures:
  "analyzeFoodImage JSON_parse (Throws e) = Inl e"
  "\<not> truthy text \<Longrightarrow> analyzeFoodImage JSON_parse (Responds text) = Inl (Error ''No response from AI'')"
  "JSON_parse t = Inl e \<Longrightarrow> t \<noteq> [] \<Longrightarrow> analyzeFoodImage JSON_parse (Responds (Some t)) = Inl e"
  by (simp_all add: analyzeFoodImage_def analyzeFoodImage_body_def catch_def andThen_def truthy_def)

text \<open>
  C3. When the analysis of a chosen image fails (the read of the file yields nothing, or
  analyzeFoodImage throws: a rejected request, a response without text, a text that
  \<^verbatim>\<open>JSON.parse\<close> rejects), handleFileSelect ends normally: no exception leaves the handler,
  the App state and with it the meal log is returned as it was, and the component holds
  no analysis result. In that state handleSaveMeal changes nothing, so no MealLog comes
  out of a failed analysis.
\<close>

theorem failed_analysis_keeps_meal_log:
  assumes "readerResult = None \<or> analyzeFoodImage JSON_parse response = Inl e"
  shows "handleFileSelect JSON_parse (Some mimeType) readerResult response (app, n)
           = Inr (app, failedState readerResult n)
       \<and> handleSaveMeal now (app, failedState readerResult n)
           = Inr (app, failedState readerResult n)
       \<and> analysisResult (failedState readerResult n) = None
       \<and> \<not> isAnalyzing (failedState readerResult n)
       \<and> (\<forall>e'. analyzeFoodImage JSON_parse (Throws e') = Inl e')
       \<and> (\<forall>text. \<not> truthy text \<longrightarrow>
             analyzeFoodImage JSON_parse (Responds text) = Inl (Error ''No response from AI''))
       \<and> (\<forall>t e'. t \<noteq> [] \<and> JSON_parse t = Inl e' \<longrightarrow>
             analyzeFoodImage JSON_parse (Responds (Some t)) = Inl e')"
proof (intro conjI allI impI)
  show "handleFileSelect JSON_parse (Some mimeType) readerResult response (app, n)
           = Inr (app, failedState readerResult n)"
    using assms
    by (auto simp: handleFileSelect_def failedState_def catch_def andThen_def Let_def
             split: option.splits)
  show "handleSaveMeal now (app, failedState readerResult n)
           = Inr (app, failedState readerResult n)"
    by (simp add: handleSaveMeal_def failedState_def)
qed (simp_all add: failedState_def analyzeFoodImage_failures)

text \<open>Instances: a rejected request while an older analysis result was still held, then
  the save handler in the resulting state, then a reply that is not JSON.\<close>

theorem failed_analysis_keeps_meal_log_witness:
  "handleFileSelect (tableParser []) (Some ''image/png'') (Some ''data:image/png;base64,QUJD'')
       (Throws (ApiError ''fetch failed'')) (sampleApp [], sampleNutrition (Some sampleAnalysis))
     = Inr (sampleApp [],
            failedState (Some ''data:image/png;base64,QUJD'') (sampleNutrition (Some sampleAnalysis)))
   \<and> handleSaveMeal 1730138400000 (sampleApp [],
         failedState (Some ''data:image/png;base64,QUJD'') (sampleNutrition (Some sampleAnalysis)))
     = Inr (sampleApp [],
            failedState (Some ''data:image/png;base64,QUJD'') (sampleNutrition (Some sampleAnalysis)))
   \<and> handleFileSelect (tableParser []) (Some ''image/png'') (Some ''data:image/png;base64,QUJD'')
       (Responds (Some ''{'')) (sampleApp [], sampleNutrition None)
     = Inr (sampleApp [],
            failedState (Some ''data:image/png;base64,QUJD'') (sampleNutrition None))"
proof -
  have 1: "Some ''data:image/png;base64,QUJD'' = None
           \<or> analyzeFoodImage (tableParser []) (Throws (ApiError ''fetch failed''))
               = Inl (ApiError ''fetch failed'')"
    by (simp add: analyzeFoodImage_failures)
  have 2: "Some ''data:image/png;base64,QUJD'' = None
           \<or> analyzeFoodImage (tableParser []) (Responds (Some ''{'')) = Inl SyntaxError"
    by (simp add: analyzeFoodImage_failures tableParser_def)
  note a = failed_analysis_keeps_meal_log [OF 1, of "''image/png''" "sampleApp []"
             "sampleNutrition (Some sampleAnalysis)" 1730138400000]
  note b = failed_analysis_keeps_meal_log [OF 2, of "''image/png''" "sampleApp []"
             "sampleNutrition None" 1730138400000]
  show ?thesis
    by (intro conjI a [THEN conjunct1] a [THEN conjunct2, THEN conjunct1] b [THEN conjunct1])
qed

section \<open>Profile component: the workout streak\<close>

lemma isoDate_parseDate: "isoDate (parseDate d) = d"
  by (simp add: isoDate_def parseDate_def msPerDay_def)

lemma isoDate_setDateBack_fixed:
  "isoDate (setDateBack (fixedZone off) (parseDate d) i) = d - i"
proof -
  have "setDateBack (fixedZone off) (parseDate d) i = (d - i) * msPerDay"
    by (simp add: setDateBack_def UTC_def LocalTime_def fixedZone_def parseDate_def algebra_simps)
  then show ?thesis by (simp add: isoDate_def msPerDay_def)
qed

lemma streakLoop_fixed_aux:
  "z = fixedZone off \<Longrightarrow> s = i \<Longrightarrow> i \<le> length dates \<Longrightarrow>
   (\<forall>j<i. dates ! j = dates ! 0 - int j) \<Longrightarrow>
   i \<le> streakLoop z dates i s \<and> streakLoop z dates i s \<le> length dates
   \<and> (\<forall>j < streakLoop z dates i s. dates ! j = dates ! 0 - int j)
   \<and> (streakLoop z dates i s < length dates \<longrightarrow>
        dates ! (streakLoop z dates i s) \<noteq> dates ! 0 - int (streakLoop z dates i s))"
proof (induction z dates i s rule: streakLoop.induct)
  case (1 z dates i streak)
  note z = "1.prems"(1) and s = "1.prems"(2) and le = "1.prems"(3) and inv = "1.prems"(4)
  show ?case
  proof (cases "i < length dates")
    case False
    then have "streakLoop z dates i streak = streak"
      by (subst streakLoop.simps) simp
    then have r: "streakLoop z dates i streak = i" using s by simp
    from False le have "i = length dates" by simp
    then show ?thesis unfolding r using inv by blast
  next
    case True
    show ?thesis
    proof (cases "dates ! i = dates ! 0 - int i")
      case False
      then have "isoDate (parseDate (dates ! i))
                    \<noteq> isoDate (setDateBack z (parseDate (dates ! 0)) (int i))"
        unfolding z isoDate_parseDate isoDate_setDateBack_fixed .
      with True have "streakLoop z dates i streak = streak"
        by (subst streakLoop.simps) simp
      then have r: "streakLoop z dates i streak = i" using s by simp
      show ?thesis unfolding r using inv True False le by blast
    next
      case eq: True
      then have test: "isoDate (parseDate (dates ! i))
                    = isoDate (setDateBack z (parseDate (dates ! 0)) (int i))"
        unfolding z isoDate_parseDate isoDate_setDateBack_fixed .
      with True have step:
        "streakLoop z dates i streak = streakLoop z dates (i + 1) (streak + 1)"
        by (subst streakLoop.simps) simp
      have inv': "\<forall>j<i + 1. dates ! j = dates ! 0 - int j"
      proof (intro allI impI)
        fix j assume "j < i + 1"
        then have "j < i \<or> j = i" by arith
        then show "dates ! j = dates ! 0 - int j" using inv eq by blast
      qed
      have s': "streak + 1 = i + 1" using s by simp
      have le': "i + 1 \<le> length dates" using True by simp
      from "1.IH" [OF True test z s' le' inv']
      have IH: "i + 1 \<le> streakLoop z dates (i + 1) (streak + 1)
            \<and> streakLoop z dates (i + 1) (streak + 1) \<le> length dates
            \<and> (\<forall>j < streakLoop z dates (i + 1) (streak + 1). dates ! j = dates ! 0 - int j)
            \<and> (streakLoop z dates (i + 1) (streak + 1) < length dates \<longrightarrow>
                 dates ! (streakLoop z dates (i + 1) (streak + 1))
                   \<noteq> dates ! 0 - int (streakLoop z dates (i + 1) (streak + 1)))" .
      then have "i \<le> streakLoop z dates (i + 1) (streak + 1)" by arith
      with IH show ?thesis unfolding step by blast
    qed
  qed
qed

lemma streakLoop_fixed:
  "streakLoop (fixedZone off) dates 0 0 \<le> length dates
   \<and> (\<forall>j < streakLoop (fixedZone off) dates 0 0. dates ! j = dates ! 0 - int j)
   \<and> (streakLoop (fixedZone off) dates 0 0 < length dates \<longrightarrow>
        dates ! (streakLoop (fixedZone off) dates 0 0)
          \<noteq> dates ! 0 - int (streakLoop (fixedZone off) dates 0 0))"
  using streakLoop_fixed_aux [of "fixedZone off" off 0 0 dates] by blast

lemma consecutiveDays_char:
  "(\<forall>j<k. d - int j \<in> set ds) \<Longrightarrow> d - int k \<notin> set ds \<Longrightarrow> consecutiveDays ds d = k"
proof (induction k arbitrary: ds d)
  case 0
  then show ?case by (subst consecutiveDays.simps) simp
next
  case (Suc k)
  from Suc.prems(1) have d: "d \<in> set ds" by force
  have a: "\<forall>j<k. (d - 1) - int j \<in> set (removeAll d ds)"
  proof (intro allI impI)
    fix j assume "j < k"
    then have "d - int (Suc j) \<in> set ds" using Suc.prems(1) by blast
    then show "(d - 1) - int j \<in> set (removeAll d ds)" by (simp add: algebra_simps)
  qed
  have b: "(d - 1) - int k \<notin> set (removeAll d ds)"
    using Suc.prems(2) by (simp add: algebra_simps)
  from Suc.IH [OF a b] d show ?case by (subst consecutiveDays.simps) simp
qed

lemma sorted_desc_strict:
  "sorted (map (\<lambda>d. - parseDate d) xs) \<Longrightarrow> distinct xs \<Longrightarrow> sorted_wrt (\<lambda>a b. b < a) xs"
proof (induction xs)
  case Nil
  then show ?case by simp
next
  case (Cons x xs)
  then have "\<forall>y \<in> set xs. - parseDate x \<le> - parseDate y" by auto
  then have "\<forall>y \<in> set xs. y \<le> x" by (simp add: parseDate_def msPerDay_def)
  moreover have "\<forall>y \<in> set xs. y \<noteq> x" using Cons.prems(2) by auto
  ultimately have "\<forall>y \<in> set xs. y < x" by force
  with Cons show ?case by simp
qed

lemma dates_properties:
  "set (sortDescending (uniqueInOrder ds)) = set ds"
  "distinct (sortDescending (uniqueInOrder ds))"
  "sorted_wrt (\<lambda>a b. b < a) (sortDescending (uniqueInOrder ds))"
proof -
  show s: "set (sortDescending (uniqueInOrder ds)) = set ds"
    by (simp add: sortDescending_def uniqueInOrder_def)
  show d: "distinct (sortDescending (uniqueInOrder ds))"
    by (simp add: sortDescending_def uniqueInOrder_def)
  show "sorted_wrt (\<lambda>a b. b < a) (sortDescending (uniqueInOrder ds))"
    by (rule sorted_desc_strict [OF _ d]) (simp add: sortDescending_def)
qed

lemma desc_nth_less:
  "sorted_wrt (\<lambda>a b. b < a) xs \<Longrightarrow> p < q \<Longrightarrow> q < length xs \<Longrightarrow> xs ! q < (xs ! p :: int)"
  by (simp add: sorted_wrt_iff_nth_less)

lemma desc_head_Max:
  "sorted_wrt (\<lambda>a b. b < a) xs \<Longrightarrow> xs \<noteq> [] \<Longrightarrow> xs ! 0 = Max (set (xs :: int list))"
proof -
  assume a: "sorted_wrt (\<lambda>a b. b < a) xs" and ne: "xs \<noteq> []"
  then obtain x rest where xs: "xs = x # rest" by (cases xs) auto
  with a have "\<forall>y \<in> set rest. y < x" by simp
  then have "Max (set xs) = x" unfolding xs by (intro Max_eqI) auto
  then show ?thesis by (simp add: xs)
qed

lemma desc_run:
  fixes xs :: "int list"
  assumes desc: "sorted_wrt (\<lambda>a b. b < a) xs"
      and km: "k \<le> length xs" and pos: "0 < k"
      and run: "\<forall>j<k. xs ! j = xs ! 0 - int j"
      and stop: "k < length xs \<longrightarrow> xs ! k \<noteq> xs ! 0 - int k"
  shows "(\<forall>j<k. xs ! 0 - int j \<in> set xs) \<and> xs ! 0 - int k \<notin> set xs"
proof
  show "\<forall>j<k. xs ! 0 - int j \<in> set xs"
  proof (intro allI impI)
    fix j assume "j < k"
    then have "xs ! j = xs ! 0 - int j" "j < length xs"
      using run [rule_format, of j] km by arith+
    then show "xs ! 0 - int j \<in> set xs" by (metis nth_mem)
  qed
  show "xs ! 0 - int k \<notin> set xs"
  proof
    assume "xs ! 0 - int k \<in> set xs"
    then obtain p where p: "p < length xs" "xs ! p = xs ! 0 - int k"
      by (auto simp: in_set_conv_nth)
    show False
    proof (cases "p < k")
      case True
      then have "xs ! p = xs ! 0 - int p" using run [rule_format, of p] by blast
      with p(2) True show False by arith
    next
      case False
      then have kp: "k \<le> p" by simp
      with p have kl: "k < length xs" by simp
      have "xs ! k < xs ! (k - 1)"
        using desc_nth_less [OF desc, of "k - 1" k] pos kl by simp
      moreover have "xs ! (k - 1) = xs ! 0 - int (k - 1)"
        using run [rule_format, of "k - 1"] pos by arith
      ultimately have "xs ! k \<le> xs ! 0 - int k" using pos by arith
      with stop kl have lt: "xs ! k < xs ! 0 - int k" by arith
      have "xs ! p \<le> xs ! k"
      proof (cases "p = k")
        case True then show ?thesis by simp
      next
        case False
        with kp have "k < p" by simp
        from desc_nth_less [OF desc this p(1)] show ?thesis by simp
      qed
      with lt p(2) show False by arith
    qed
  qed
qed

lemma calculateStreak_fixed_eq:
  "calculateStreak (fixedZone off) now workouts =
     (if workouts = [] then 0
      else if Max (set (workoutDays workouts)) \<noteq> isoDate now
              \<and> Max (set (workoutDays workouts)) \<noteq> isoDate now - 1 then 0
      else consecutiveDays (workoutDays workouts) (Max (set (workoutDays workouts))))"
proof (cases "workouts = []")
  case True
  then show ?thesis by (simp add: calculateStreak_def)
next
  case False
  let ?days = "workoutDays workouts"
  let ?dates = "sortDescending (uniqueInOrder ?days)"
  have ne: "?dates \<noteq> []"
    using False dates_properties(1) [of ?days] by (auto simp: workoutDays_def)
  note desc = dates_properties(3) [of ?days]
  have top: "?dates ! 0 = Max (set ?days)"
    using desc_head_Max [OF desc ne] by (simp add: dates_properties(1))
  have yest: "isoDate (now - 86400000) = isoDate now - 1"
    by (simp add: isoDate_def msPerDay_def)
  have unfold: "calculateStreak (fixedZone off) now workouts =
      (if ?dates ! 0 \<noteq> isoDate now \<and> ?dates ! 0 \<noteq> isoDate now - 1 then 0
       else streakLoop (fixedZone off) ?dates 0 0)"
    using False ne by (simp add: calculateStreak_def Let_def workoutDays_def yest)
  let ?k = "streakLoop (fixedZone off) ?dates 0 0"
  have pos: "0 < ?k"
  proof (rule ccontr)
    assume "\<not> 0 < ?k"
    then have z: "?k = 0" by simp
    from streakLoop_fixed [of off ?dates, THEN conjunct2, THEN conjunct2] ne
    show False unfolding z by simp
  qed
  have "(\<forall>j < ?k. ?dates ! 0 - int j \<in> set ?dates) \<and> ?dates ! 0 - int ?k \<notin> set ?dates"
    by (rule desc_run [OF desc streakLoop_fixed [of off ?dates, THEN conjunct1] pos
                streakLoop_fixed [of off ?dates, THEN conjunct2, THEN conjunct1]
                streakLoop_fixed [of off ?dates, THEN conjunct2, THEN conjunct2]])
  then have "consecutiveDays ?days (Max (set ?days)) = ?k"
    unfolding top dates_properties(1) by (intro consecutiveDays_char) blast+
  with unfold top False show ?thesis by simp
qed


lemma consecutiveDays_absent: "d \<notin> set ds \<Longrightarrow> consecutiveDays ds d = 0"
  by (subst consecutiveDays.simps) simp

lemma sample_days:
  "workoutDays [sampleSession ''a'' 1729933200000 [], sampleSession ''b'' 1730019600000 [],
                sampleSession ''c'' 1730106000000 []] = [20022, 20023, 20024]"
  "workoutDays [sampleSession ''c'' 1730106000000 [], sampleSession ''d'' 1729846800000 []]
     = [20024, 20021]"
  "isoDate 1730138400000 = 20024"
  by (simp_all add: workoutDays_def sampleSession_def isoDate_def msPerDay_def)

lemma berlin_steps:
  "isoDate (setDateBack europeBerlin2024 (parseDate 20024) 0) = 20024"
  "isoDate (setDateBack europeBerlin2024 (parseDate 20024) 1) = 20022"
  by (simp_all add: isoDate_def parseDate_def msPerDay_def setDateBack_def UTC_def LocalTime_def
        europeBerlin2024_def)

lemma sample_dates:
  "sortDescending (uniqueInOrder [20022, 20023, 20024]) = [20024, 20023, 20022]"
  by (simp add: sortDescending_def uniqueInOrder_def parseDate_def msPerDay_def)

lemma berlin_loop: "streakLoop europeBerlin2024 [20024, 20023, 20022] 0 0 = 1"
  apply (subst streakLoop.simps)
  apply (simp add: isoDate_parseDate berlin_steps)
  apply (subst streakLoop.simps)
  apply (simp add: isoDate_parseDate berlin_steps)
  done

text \<open>
  C2. The claim is that the streak is the count of consecutive calendar days from the most
  recent workout day back to the first gap, so that workouts today, yesterday and the day
  before yesterday give 3. The code computes the day it expects at step \<open>i\<close> with
  \<^verbatim>\<open>setDate(getDate() - i)\<close>, which works on the local wall-clock time, and compares its
  \<^verbatim>\<open>toISOString\<close> date, which is the UTC date. Where the host's offset from UTC changes
  between the two days the step lands on the wrong UTC day. Evaluation on a host in
  Central European Time at 2024-10-28T18:00Z, with sessions logged at 09:00Z on October
  26, 27 and 28: midnight UTC of October 28 is 01:00 local (UTC+1); one day back is 01:00
  local on October 27, still summer time (UTC+2), that is 23:00Z on October 26, so the
  day expected at step 1 is October 26, not October 27, and the count stops at 1. The
  workout days are exactly today, yesterday and the day before, and the count of
  consecutive days from today is 3.
\<close>

theorem calculateStreak_dst_evaluation:
  "calculateStreak europeBerlin2024 1730138400000
     [sampleSession ''a'' 1729933200000 [], sampleSession ''b'' 1730019600000 [],
      sampleSession ''c'' 1730106000000 []] = 1
   \<and> set (workoutDays
     [sampleSession ''a'' 1729933200000 [], sampleSession ''b'' 1730019600000 [],
      sampleSession ''c'' 1730106000000 []])
      = {isoDate 1730138400000, isoDate 1730138400000 - 1, isoDate 1730138400000 - 2}
   \<and> consecutiveDays (workoutDays
     [sampleSession ''a'' 1729933200000 [], sampleSession ''b'' 1730019600000 [],
      sampleSession ''c'' 1730106000000 []]) (isoDate 1730138400000) = 3"
proof -
  have y: "isoDate (1730138400000 - 86400000) = 20023"
    by (simp add: isoDate_def msPerDay_def)
  have a: "calculateStreak europeBerlin2024 1730138400000
     [sampleSession ''a'' 1729933200000 [], sampleSession ''b'' 1730019600000 [],
      sampleSession ''c'' 1730106000000 []] = 1"
    unfolding calculateStreak_def Let_def
    unfolding sample_days [unfolded workoutDays_def] sample_dates berlin_loop y
    by simp
  have b: "set [20022, 20023, 20024] = {20024, 20024 - 1, 20024 - (2::int)}"
    by auto
  have c: "consecutiveDays [20022, 20023, 20024] 20024 = 3"
    apply (subst consecutiveDays.simps, simp)
    apply (subst consecutiveDays.simps, simp)
    apply (subst consecutiveDays.simps, simp)
    apply (subst consecutiveDays.simps, simp)
    done
  show ?thesis
    unfolding sample_days by (intro conjI a [unfolded sample_days] b c)
qed

text \<open>
  X1. On a host whose offset from UTC never changes, calculateStreak is what the
  specification says: 0 for no workouts and when the most recent workout day is neither
  today nor yesterday (UTC days), otherwise the number of consecutive days in the
  workout days counted back from the most recent one to the first gap. In particular
  workouts on exactly today, yesterday and the day before give 3, on exactly today and
  three days ago give 1, on three days ago only give 0, and none give 0.
\<close>

theorem calculateStreak_constant_offset:
  "calculateStreak (fixedZone off) now workouts =
     (if workouts = [] then 0
      else if Max (set (workoutDays workouts)) \<noteq> isoDate now
              \<and> Max (set (workoutDays workouts)) \<noteq> isoDate now - 1 then 0
      else consecutiveDays (workoutDays workouts) (Max (set (workoutDays workouts))))
   \<and> (set (workoutDays workouts) = {isoDate now, isoDate now - 1, isoDate now - 2} \<longrightarrow>
        calculateStreak (fixedZone off) now workouts = 3)
   \<and> (set (workoutDays workouts) = {isoDate now, isoDate now - 3} \<longrightarrow>
        calculateStreak (fixedZone off) now workouts = 1)
   \<and> (set (workoutDays workouts) = {isoDate now - 3} \<longrightarrow>
        calculateStreak (fixedZone off) now workouts = 0)
   \<and> calculateStreak (fixedZone off) now [] = 0"
proof (intro conjI impI)
  show "calculateStreak (fixedZone off) now workouts =
     (if workouts = [] then 0
      else if Max (set (workoutDays workouts)) \<noteq> isoDate now
              \<and> Max (set (workoutDays workouts)) \<noteq> isoDate now - 1 then 0
      else consecutiveDays (workoutDays workouts) (Max (set (workoutDays workouts))))"
    by (rule calculateStreak_fixed_eq)
next
  let ?t = "isoDate now"
  assume a: "set (workoutDays workouts) = {?t, ?t - 1, ?t - 2}"
  then have ne: "workouts \<noteq> []" by (auto simp: workoutDays_def)
  have m: "Max (set (workoutDays workouts)) = ?t" unfolding a by simp
  have "consecutiveDays (workoutDays workouts) ?t = 3"
  proof (rule consecutiveDays_char)
    show "\<forall>j<3. ?t - int j \<in> set (workoutDays workouts)"
    proof (intro allI impI)
      fix j :: nat assume "j < 3"
      then have "j = 0 \<or> j = 1 \<or> j = 2" by arith
      then show "?t - int j \<in> set (workoutDays workouts)" unfolding a by auto
    qed
    show "?t - int 3 \<notin> set (workoutDays workouts)" unfolding a by simp
  qed
  then show "calculateStreak (fixedZone off) now workouts = 3"
    by (simp add: calculateStreak_fixed_eq ne m)
next
  let ?t = "isoDate now"
  assume a: "set (workoutDays workouts) = {?t, ?t - 3}"
  then have ne: "workouts \<noteq> []" by (auto simp: workoutDays_def)
  have m: "Max (set (workoutDays workouts)) = ?t" unfolding a by simp
  have "consecutiveDays (workoutDays workouts) ?t = 1"
  proof (rule consecutiveDays_char)
    show "\<forall>j<1. ?t - int j \<in> set (workoutDays workouts)" unfolding a by simp
    show "?t - int 1 \<notin> set (workoutDays workouts)" unfolding a by simp
  qed
  then show "calculateStreak (fixedZone off) now workouts = 1"
    by (simp add: calculateStreak_fixed_eq ne m)
next
  let ?t = "isoDate now"
  assume a: "set (workoutDays workouts) = {?t - 3}"
  then have ne: "workouts \<noteq> []" by (auto simp: workoutDays_def)
  have m: "Max (set (workoutDays workouts)) = ?t - 3" unfolding a by simp
  show "calculateStreak (fixedZone off) now workouts = 0"
    by (simp add: calculateStreak_fixed_eq ne m)
next
  show "calculateStreak (fixedZone off) now [] = 0"
    by (simp add: calculateStreak_def)
qed

text \<open>Instances, on a host at UTC+5:30: sessions on October 26, 27 and 28 seen on October
  28 make a streak of 3; sessions on October 28 and 25 make a streak of 1.\<close>

theorem calculateStreak_constant_offset_witness:
  "calculateStreak (fixedZone 19800000) 1730138400000
     [sampleSession ''a'' 1729933200000 [], sampleSession ''b'' 1730019600000 [],
      sampleSession ''c'' 1730106000000 []] = 3
   \<and> calculateStreak (fixedZone 19800000) 1730138400000
     [sampleSession ''c'' 1730106000000 [], sampleSession ''d'' 1729846800000 []] = 1"
proof -
  have 1: "set (workoutDays [sampleSession ''a'' 1729933200000 [],
             sampleSession ''b'' 1730019600000 [], sampleSession ''c'' 1730106000000 []])
           = {isoDate 1730138400000, isoDate 1730138400000 - 1, isoDate 1730138400000 - 2}"
    unfolding sample_days by auto
  have 2: "set (workoutDays [sampleSession ''c'' 1730106000000 [],
             sampleSession ''d'' 1729846800000 []])
           = {isoDate 1730138400000, isoDate 1730138400000 - 3}"
    unfolding sample_days by auto
  show ?thesis
    by (intro conjI
          calculateStreak_constant_offset [THEN conjunct2, THEN conjunct1, rule_format, OF 1]
          calculateStreak_constant_offset
            [THEN conjunct2, THEN conjunct2, THEN conjunct1, rule_format, OF 2])
qed

end
